theory Spec2Isabelle
  imports Complex_Main
begin

section \<open>Values of the host language\<close>

text \<open>
  The module \<^verbatim>\<open>asyncua_utils/nodes.py\<close> exports an OPC UA address space into nested
  dictionaries (\<^verbatim>\<open>browse_nodes\<close>) and replays such a dictionary against another server
  (\<^verbatim>\<open>clone_nodes\<close>, \<^verbatim>\<open>add_variable\<close>, \<^verbatim>\<open>fix_name\<close>). Python strings are modelled as
  \<^typ>\<open>string\<close>, one \<^typ>\<open>char\<close> per code point (code points below 256). Calls to the
  logger neither return a value nor change the control flow and are left out.
\<close>

text \<open>Exceptions that the code names, catches or raises. \<open>UaError\<close> stands for any
  other subclass of \<^verbatim>\<open>ua.UaError\<close>, \<open>PyException\<close> for any exception outside that
  hierarchy. \<open>SystemExit\<close> carries its exit status and its \<^verbatim>\<open>__context__\<close>: the
  exception that was being handled when it was raised, if any.\<close>

datatype exn =
    BadOutOfService
  | BadAttributeIdInvalid
  | BadInternalError
  | BadSecurityModeInsufficient
  | UaError string
  | PyException string
  | KeyError string
  | NotImplementedError
  | SystemExit int "exn option"
  | RecursionError

text \<open>\<^verbatim>\<open>except ua.UaError\<close>: the four status-code errors are subclasses of it.\<close>

fun is_UaError :: "exn \<Rightarrow> bool" where
  "is_UaError BadOutOfService = True"
| "is_UaError BadAttributeIdInvalid = True"
| "is_UaError BadInternalError = True"
| "is_UaError BadSecurityModeInsufficient = True"
| "is_UaError (UaError _) = True"
| "is_UaError _ = False"

text \<open>\<^verbatim>\<open>except (BadOutOfService, BadAttributeIdInvalid, BadInternalError,
  BadSecurityModeInsufficient)\<close>\<close>

fun is_value_read_error :: "exn \<Rightarrow> bool" where
  "is_value_read_error BadOutOfService = True"
| "is_value_read_error BadAttributeIdInvalid = True"
| "is_value_read_error BadInternalError = True"
| "is_value_read_error BadSecurityModeInsufficient = True"
| "is_value_read_error _ = False"

text \<open>\<^verbatim>\<open>ua.NodeClass\<close>, an integer enumeration.\<close>

datatype node_class =
    Unspecified | Object | Variable | Method | ObjectType
  | VariableType | ReferenceType | DataType | View

fun NodeClass_value :: "node_class \<Rightarrow> int" where
  "NodeClass_value Unspecified = 0"
| "NodeClass_value Object = 1"
| "NodeClass_value Variable = 2"
| "NodeClass_value Method = 4"
| "NodeClass_value ObjectType = 8"
| "NodeClass_value VariableType = 16"
| "NodeClass_value ReferenceType = 32"
| "NodeClass_value DataType = 64"
| "NodeClass_value View = 128"

fun NodeClass_name :: "node_class \<Rightarrow> string" where
  "NodeClass_name Unspecified = ''Unspecified''"
| "NodeClass_name Object = ''Object''"
| "NodeClass_name Variable = ''Variable''"
| "NodeClass_name Method = ''Method''"
| "NodeClass_name ObjectType = ''ObjectType''"
| "NodeClass_name VariableType = ''VariableType''"
| "NodeClass_name ReferenceType = ''ReferenceType''"
| "NodeClass_name DataType = ''DataType''"
| "NodeClass_name View = ''View''"

text \<open>\<^verbatim>\<open>ua.VariantType\<close>.\<close>

datatype variant_type =
    Null | Boolean | SByte | Byte | Int16 | UInt16 | Int32 | UInt32 | Int64 | UInt64
  | Float | Double | String | DateTime | Guid | ByteString | XmlElement | NodeId
  | ExpandedNodeId | StatusCode | QualifiedName | LocalizedText | ExtensionObject
  | DataValue | Variant | DiagnosticInfo

definition VariantType_names :: "(string \<times> variant_type) list" where
  "VariantType_names =
    [(''Null'', Null), (''Boolean'', Boolean), (''SByte'', SByte), (''Byte'', Byte),
     (''Int16'', Int16), (''UInt16'', UInt16), (''Int32'', Int32), (''UInt32'', UInt32),
     (''Int64'', Int64), (''UInt64'', UInt64), (''Float'', Float), (''Double'', Double),
     (''String'', String), (''DateTime'', DateTime), (''Guid'', Guid),
     (''ByteString'', ByteString), (''XmlElement'', XmlElement), (''NodeId'', NodeId),
     (''ExpandedNodeId'', ExpandedNodeId), (''StatusCode'', StatusCode),
     (''QualifiedName'', QualifiedName), (''LocalizedText'', LocalizedText),
     (''ExtensionObject'', ExtensionObject), (''DataValue'', DataValue),
     (''Variant'', Variant), (''DiagnosticInfo'', DiagnosticInfo)]"

text \<open>\<^verbatim>\<open>VariantType(t).name\<close> and \<^verbatim>\<open>VariantType[name]\<close> (the latter raises
  \<^verbatim>\<open>KeyError\<close> on an unknown name).\<close>

definition VariantType_name :: "variant_type \<Rightarrow> string" where
  "VariantType_name t = (case find (\<lambda>p. snd p = t) VariantType_names of
                           Some p \<Rightarrow> fst p | None \<Rightarrow> [])"

definition VariantType_getitem :: "string \<Rightarrow> exn + variant_type" where
  "VariantType_getitem s = (case map_of VariantType_names s of
                              Some t \<Rightarrow> Inr t | None \<Rightarrow> Inl (KeyError s))"

text \<open>
  The values a variable can hold, as far as the code inspects them: it tests their
  truthiness, whether they are lists or dictionaries, and the \<^verbatim>\<open>__module__\<close> of anything
  else. \<open>PyFloat\<close> carries the real number a finite float denotes (only its zero test is
  used); \<open>PyObject m b\<close> is an instance of a class defined in module \<open>m\<close> whose truth
  value is \<open>b\<close>.
\<close>

datatype pyval =
    PyNone
  | PyBool bool
  | PyInt int
  | PyFloat real
  | PyStr string
  | PyList "pyval list"
  | PyDict "(pyval \<times> pyval) list"
  | PyDateTime int
  | PyObject string bool

fun truthy :: "pyval \<Rightarrow> bool" where
  "truthy PyNone = False"
| "truthy (PyBool b) = b"
| "truthy (PyInt i) = (i \<noteq> 0)"
| "truthy (PyFloat x) = (x \<noteq> 0)"
| "truthy (PyStr s) = (s \<noteq> [])"
| "truthy (PyList vs) = (vs \<noteq> [])"
| "truthy (PyDict kvs) = (kvs \<noteq> [])"
| "truthy (PyDateTime _) = True"
| "truthy (PyObject _ b) = b"

text \<open>\<^verbatim>\<open>s.startswith(p)\<close>\<close>

definition startswith :: "string \<Rightarrow> string \<Rightarrow> bool" where
  "startswith s p = (take (length p) s = p)"

text \<open>\<^verbatim>\<open>getattr(obj_val, '__module__', '')\<close>: instances of the built-in types have no
  such attribute.\<close>

fun module_of :: "pyval \<Rightarrow> string" where
  "module_of (PyObject m _) = m"
| "module_of _ = []"

fun check_if_object_is_from_module :: "pyval \<Rightarrow> string \<Rightarrow> bool" where
  "check_if_object_is_from_module (PyList vs) module_name =
     (\<exists>val \<in> set vs. check_if_object_is_from_module val module_name)"
| "check_if_object_is_from_module (PyDict kvs) module_name =
     (\<exists>val \<in> set (map snd kvs). check_if_object_is_from_module val module_name)"
| "check_if_object_is_from_module obj_val module_name =
     startswith (module_of obj_val) module_name"

section \<open>The name normalizer\<close>

text \<open>\<^verbatim>\<open>str(n)\<close> for an integer: decimal digits, a minus sign when negative.\<close>

fun str_nat :: "nat \<Rightarrow> string" where
  "str_nat n = (if n < 10 then [''0123456789'' ! n]
                else str_nat (n div 10) @ [''0123456789'' ! (n mod 10)])"

definition str_int :: "int \<Rightarrow> string" where
  "str_int i = (if i < 0 then CHR ''-'' # str_nat (nat (- i)) else str_nat (nat i))"

text \<open>\<^verbatim>\<open>re.search(r"^\d:", name)\<close>: a decimal digit at position 0 and a colon at
  position 1.\<close>

fun matches_digit_colon :: "string \<Rightarrow> bool" where
  "matches_digit_colon (d # c # _) = (d \<in> set ''0123456789'' \<and> c = CHR '':'')"
| "matches_digit_colon _ = False"

definition fix_name :: "string \<Rightarrow> int \<Rightarrow> string" where
  "fix_name name namespace_idx =
     (let name1 = (if startswith name ''http://''
                   then drop (length ''http://'') name else name)
      in if matches_digit_colon name1
         then str_int namespace_idx @ drop 1 name1
         else name1)"

section \<open>Node snapshots\<close>

text \<open>
  The dictionary \<^verbatim>\<open>browse_nodes\<close> builds and \<^verbatim>\<open>clone_nodes\<close> consumes. The keys
  \<^verbatim>\<open>id\<close>, \<^verbatim>\<open>name\<close>, \<^verbatim>\<open>cls\<close> and \<^verbatim>\<open>path\<close> are always there; for the others
  \<open>None\<close> means that the key is absent, which Python distinguishes from a key whose
  value is \<^verbatim>\<open>None\<close> (\<open>Some TypeNone\<close>, \<open>Some PyNone\<close>) or an empty list.
  \<^verbatim>\<open>cls\<close> holds the numeric code or the symbolic name of the node class, \<^verbatim>\<open>type\<close>
  holds \<^verbatim>\<open>None\<close>, a \<^verbatim>\<open>VariantType\<close> or its name.
\<close>

datatype cls_val = ClsInt int | ClsStr string

datatype type_val = TypeNone | TypeEnum variant_type | TypeStr string

datatype 'r snapshot =
  Snapshot (snap_id: string) (snap_name: string) (snap_cls: cls_val)
           (snap_type: "type_val option") (snap_path: "string list")
           (snap_current_value: "pyval option") (snap_node: "'r option")
           (snap_children: "'r snapshot list option")

section \<open>Export: \<^verbatim>\<open>browse_nodes\<close>\<close>

text \<open>
  The address space that is browsed, by the calls the code makes on a node \<open>'r\<close>. Each
  call either returns or raises; the address space does not change during a browse.
\<close>

record 'r source =
  nodeid_to_string :: "'r \<Rightarrow> string"
  read_node_class :: "'r \<Rightarrow> exn + node_class"
  read_browse_name :: "'r \<Rightarrow> exn + string"
  get_children :: "'r \<Rightarrow> exn + 'r list"
  read_data_type_as_variant_type :: "'r \<Rightarrow> exn + variant_type"
  get_value :: "'r \<Rightarrow> exn + pyval"

text \<open>Lines 33 to 40: \<^verbatim>\<open>var_type\<close>. A \<^verbatim>\<open>ua.UaError\<close> of the type read is caught and
  leaves \<^verbatim>\<open>None\<close>; any other exception propagates.\<close>

definition read_var_type :: "'r source \<Rightarrow> 'r \<Rightarrow> node_class \<Rightarrow> exn + variant_type option" where
  "read_var_type src node node_class =
     (if node_class \<noteq> Variable then Inr None
      else case read_data_type_as_variant_type src node of
             Inr t \<Rightarrow> Inr (Some t)
           | Inl e \<Rightarrow> if is_UaError e then Inr None else Inl e)"

text \<open>Lines 41 to 44: \<^verbatim>\<open>current_value\<close>, assigned only for a Variable (\<open>None\<close> is the
  unbound local). The four listed errors of the value read leave \<^verbatim>\<open>None\<close>; any other
  exception propagates.\<close>

definition read_current_value :: "'r source \<Rightarrow> 'r \<Rightarrow> node_class \<Rightarrow> exn + pyval option" where
  "read_current_value src node node_class =
     (if node_class \<noteq> Variable then Inr None
      else case get_value src node of
             Inr v \<Rightarrow> Inr (Some v)
           | Inl e \<Rightarrow> if is_value_read_error e then Inr (Some PyNone) else Inl e)"

text \<open>\<^verbatim>\<open>if var_type:\<close> and \<^verbatim>\<open>if output['type']:\<close>. The truth value of a
  \<^verbatim>\<open>VariantType\<close> member is fixed by the asyncua library (true for every member of a
  plain enumeration, false for \<^verbatim>\<open>Null = 0\<close> of an integer enumeration) and is the
  parameter \<open>vt_bool\<close>.\<close>

definition var_type_truthy :: "(variant_type \<Rightarrow> bool) \<Rightarrow> variant_type option \<Rightarrow> bool" where
  "var_type_truthy vt_bool var_type = (case var_type of None \<Rightarrow> False | Some t \<Rightarrow> vt_bool t)"

text \<open>Lines 45 to 71: the dictionary, in its internal and its exported shape.\<close>

definition make_output ::
  "(variant_type \<Rightarrow> bool) \<Rightarrow> 'r \<Rightarrow> bool \<Rightarrow> string \<Rightarrow> string \<Rightarrow> node_class \<Rightarrow> string list \<Rightarrow>
   'r snapshot list \<Rightarrow> variant_type option \<Rightarrow> pyval option \<Rightarrow> 'r snapshot" where
  "make_output vt_bool node to_export node_id node_name node_class path children var_type current_value =
     (let out_value = (if var_type_truthy vt_bool var_type then current_value else None)
      in if \<not> to_export then
           Snapshot node_id node_name (ClsInt (NodeClass_value node_class))
             (Some (case var_type of None \<Rightarrow> TypeNone | Some t \<Rightarrow> TypeEnum t))
             path out_value (Some node) (Some children)
         else
           Snapshot node_id node_name
             (if NodeClass_value node_class \<noteq> 0 then ClsStr (NodeClass_name node_class)
              else ClsInt (NodeClass_value node_class))
             (case var_type of
                None \<Rightarrow> None
              | Some t \<Rightarrow> if vt_bool t then Some (TypeStr (VariantType_name t)) else None)
             path
             (case out_value of
                None \<Rightarrow> None
              | Some v \<Rightarrow> if truthy v \<and> check_if_object_is_from_module v ''asyncua''
                          then None else Some v)
             None
             (if length children \<noteq> 0 then Some children else None))"

text \<open>
  The recursion. The first argument after the parameters bounds the depth of nested
  calls, as the interpreter's recursion limit does: a call at depth zero raises
  \<^verbatim>\<open>RecursionError\<close>. \<open>browse_children\<close> is the loop of lines 28 to 32; every child
  receives a copy of the path (\<^verbatim>\<open>deepcopy(path)\<close>), so what a child appends is not seen
  by its siblings.
\<close>

fun browse_nodes ::
  "(variant_type \<Rightarrow> bool) \<Rightarrow> 'r source \<Rightarrow> nat \<Rightarrow> 'r \<Rightarrow> bool \<Rightarrow> string list option
   \<Rightarrow> exn + 'r snapshot"
and browse_children ::
  "(variant_type \<Rightarrow> bool) \<Rightarrow> 'r source \<Rightarrow> nat \<Rightarrow> 'r list \<Rightarrow> bool \<Rightarrow> string list
   \<Rightarrow> exn + 'r snapshot list"
where
  "browse_nodes vt_bool src 0 node to_export path = Inl RecursionError"
| "browse_nodes vt_bool src (Suc depth) node to_export path =
     (case read_node_class src node of
        Inl e \<Rightarrow> Inl e
      | Inr node_class \<Rightarrow>
     (case read_browse_name src node of
        Inl e \<Rightarrow> Inl e
      | Inr node_name \<Rightarrow>
     (let path1 = (case path of None \<Rightarrow> [node_name] | Some p \<Rightarrow> p @ [node_name]) in
     (case get_children src node of
        Inl e \<Rightarrow> Inl e
      | Inr cs \<Rightarrow>
     (case browse_children vt_bool src depth cs to_export path1 of
        Inl e \<Rightarrow> Inl e
      | Inr children \<Rightarrow>
     (case read_var_type src node node_class of
        Inl e \<Rightarrow> Inl e
      | Inr var_type \<Rightarrow>
     (case read_current_value src node node_class of
        Inl e \<Rightarrow> Inl e
      | Inr current_value \<Rightarrow>
          Inr (make_output vt_bool node to_export (nodeid_to_string src node) node_name
                 node_class path1 children var_type current_value))))))))"
| "browse_children vt_bool src depth [] to_export path = Inr []"
| "browse_children vt_bool src depth (child # rest) to_export path =
     (case read_node_class src child of
        Inl e \<Rightarrow> Inl e
      | Inr c \<Rightarrow>
      if c \<in> {Object, Variable} then
        (case browse_nodes vt_bool src depth child to_export (Some path) of
           Inl e \<Rightarrow> Inl e
         | Inr s \<Rightarrow>
            (case browse_children vt_bool src depth rest to_export path of
               Inl e \<Rightarrow> Inl e
             | Inr ss \<Rightarrow> Inr (s # ss)))
      else browse_children vt_bool src depth rest to_export path)"

section \<open>Clone: \<^verbatim>\<open>add_variable\<close> and \<^verbatim>\<open>clone_nodes\<close>\<close>

text \<open>
  The server that is cloned into, with state \<open>'s\<close>: the two node-creating calls made on a
  parent node \<open>'r\<close> (the new node's identifier, its name, and for a variable its value and
  type), each returning the new node or raising and leaving a new state; the identifier
  string of a node; and the clock read by \<^verbatim>\<open>datetime.datetime.today()\<close>.
\<close>

record ('r, 's) target =
  Node_add_object :: "'r \<Rightarrow> string \<Rightarrow> string \<Rightarrow> 's \<Rightarrow> (exn + 'r) \<times> 's"
  Node_add_variable ::
    "'r \<Rightarrow> string \<Rightarrow> string \<Rightarrow> pyval \<Rightarrow> variant_type option \<Rightarrow> 's \<Rightarrow> (exn + 'r) \<times> 's"
  Node_nodeid_to_string :: "'r \<Rightarrow> string"
  datetime_today :: "'s \<Rightarrow> pyval"

text \<open>Lines 128 to 132: \<^verbatim>\<open>node_dict.get('type')\<close>, converted with
  \<^verbatim>\<open>VariantType[node_type]\<close> when it is a string.\<close>

definition get_node_type :: "type_val option \<Rightarrow> exn + variant_type option" where
  "get_node_type t =
     (case t of
        None \<Rightarrow> Inr None
      | Some TypeNone \<Rightarrow> Inr None
      | Some (TypeEnum vt) \<Rightarrow> Inr (Some vt)
      | Some (TypeStr s) \<Rightarrow> (case VariantType_getitem s of Inl e \<Rightarrow> Inl e | Inr vt \<Rightarrow> Inr (Some vt)))"

text \<open>\<^verbatim>\<open>node_dict.get('current_value')\<close> as a condition: the key is present and its
  value is truthy.\<close>

definition get_truthy :: "pyval option \<Rightarrow> bool" where
  "get_truthy v = (case v of None \<Rightarrow> False | Some x \<Rightarrow> truthy x)"

text \<open>Lines 134 to 152: the value the variable is created with; \<open>None\<close> is the
  \<^verbatim>\<open>return None\<close> of the extension-object branch.\<close>

definition original_val :: "pyval option \<Rightarrow> variant_type option \<Rightarrow> pyval \<Rightarrow> pyval option" where
  "original_val current_value node_type today =
     (if get_truthy current_value then current_value
      else if node_type \<in> {Some Boolean} then Some (PyBool False)
      else if node_type \<in> {Some Int16, Some UInt16, Some Int32, Some UInt32,
                            Some Int64, Some UInt64, Some Float} then Some (PyInt 0)
      else if node_type \<in> {Some String, Some LocalizedText, Some Byte} then Some (PyStr [])
      else if node_type = Some DateTime then Some today
      else if node_type = Some ExtensionObject then None
      else Some (PyFloat 0))"

text \<open>\<^verbatim>\<open>add_variable\<close>: the result is the created node, \<open>None\<close> when declined, or an
  exception. Whatever the creating call raises is caught by the bare \<^verbatim>\<open>except:\<close>, whose
  handler calls \<^verbatim>\<open>exit(1)\<close>: this raises \<^verbatim>\<open>SystemExit(1)\<close> with the caught exception
  as its context.\<close>

definition add_variable ::
  "('r, 's) target \<Rightarrow> 'r \<Rightarrow> 'r1 snapshot \<Rightarrow> string \<Rightarrow> 's \<Rightarrow> (exn + 'r option) \<times> 's" where
  "add_variable tgt base_object node_dict node_id st =
     (let node_name = snap_name node_dict in
      case get_node_type (snap_type node_dict) of
        Inl e \<Rightarrow> (Inl e, st)
      | Inr node_type \<Rightarrow>
         (case original_val (snap_current_value node_dict) node_type (datetime_today tgt st) of
            None \<Rightarrow> (Inr None, st)
          | Some v \<Rightarrow>
             (case Node_add_variable tgt base_object node_id node_name v node_type st of
                (Inr next_var, st1) \<Rightarrow> (Inr (Some next_var), st1)
              | (Inl e, st1) \<Rightarrow> (Inl (SystemExit 1 (Some e)), st1))))"

text \<open>
  \<^verbatim>\<open>clone_nodes\<close> returns the mapping list or raises; it also assigns to
  \<^verbatim>\<open>nodes_dict['name']\<close>, so the model returns the dictionary as the call leaves it, and
  the state of the server. \<open>clone_children\<close> is the loop of lines 100 and 101.
\<close>

fun clone_nodes ::
  "('r, 's) target \<Rightarrow> 'r1 snapshot \<Rightarrow> 'r \<Rightarrow> int \<Rightarrow> string \<Rightarrow> 's
   \<Rightarrow> (exn + (string \<times> string) list) \<times> 'r1 snapshot \<times> 's"
and clone_children ::
  "('r, 's) target \<Rightarrow> 'r1 snapshot list \<Rightarrow> 'r \<Rightarrow> int \<Rightarrow> string \<Rightarrow> 's
   \<Rightarrow> (exn + (string \<times> string) list) \<times> 'r1 snapshot list \<times> 's"
where
  "clone_nodes tgt (Snapshot i n c t p v nd ch) base_object idx node_id_prefix st =
     (let node_id = node_id_prefix @ i;
          nodes_dict = Snapshot i (fix_name n idx) c t p v nd ch
      in if c \<in> {ClsInt 1, ClsStr ''Object''} then
           (case ch of
              Some (k # ks) \<Rightarrow>
                (case Node_add_object tgt base_object node_id (fix_name n idx) st of
                   (Inl e, st1) \<Rightarrow> (Inl e, nodes_dict, st1)
                 | (Inr next_obj, st1) \<Rightarrow>
                     (case clone_children tgt (k # ks) next_obj idx node_id_prefix st1 of
                        (r, ch1, st2) \<Rightarrow>
                          (r, Snapshot i (fix_name n idx) c t p v nd (Some ch1), st2)))
            | _ \<Rightarrow> (Inr [], nodes_dict, st))
         else if c \<in> {ClsInt 2, ClsStr ''Variable''} then
           (case add_variable tgt base_object nodes_dict node_id st of
              (Inl e, st1) \<Rightarrow> (Inl e, nodes_dict, st1)
            | (Inr None, st1) \<Rightarrow> (Inr [], nodes_dict, st1)
            | (Inr (Some next_var), st1) \<Rightarrow>
                (Inr [(i, Node_nodeid_to_string tgt next_var)], nodes_dict, st1))
         else (Inl NotImplementedError, nodes_dict, st))"
| "clone_children tgt [] base_object idx node_id_prefix st = (Inr [], [], st)"
| "clone_children tgt (child # rest) base_object idx node_id_prefix st =
     (case clone_nodes tgt child base_object idx node_id_prefix st of
        (Inl e, child1, st1) \<Rightarrow> (Inl e, child1 # rest, st1)
      | (Inr m, child1, st1) \<Rightarrow>
          (case clone_children tgt rest base_object idx node_id_prefix st1 of
             (Inl e, rest1, st2) \<Rightarrow> (Inl e, child1 # rest1, st2)
           | (Inr ms, rest1, st2) \<Rightarrow> (Inr (m @ ms), child1 # rest1, st2)))"

section \<open>Notions used to state properties\<close>

text \<open>The child snapshots of a snapshot (none when the key is absent), and every
  snapshot of a tree: the top-level entry first, then those below it.\<close>

definition kids :: "'r snapshot \<Rightarrow> 'r snapshot list" where
  "kids s = (case snap_children s of None \<Rightarrow> [] | Some cs \<Rightarrow> cs)"

fun nodes :: "'r snapshot \<Rightarrow> 'r snapshot list" where
  "nodes (Snapshot i n c t p v nd ch) =
     Snapshot i n c t p v nd ch # (case ch of None \<Rightarrow> [] | Some cs \<Rightarrow> concat (map nodes cs))"

definition descendants :: "'r snapshot \<Rightarrow> 'r snapshot list" where
  "descendants s = concat (map nodes (kids s))"

text \<open>How \<^verbatim>\<open>browse_nodes\<close> writes a node class into \<^verbatim>\<open>cls\<close>: the numeric code, or in
  export mode the name of a class whose code is not zero.\<close>

definition cls_of_class :: "bool \<Rightarrow> node_class \<Rightarrow> cls_val" where
  "cls_of_class to_export c =
     (if to_export \<and> NodeClass_value c \<noteq> 0 then ClsStr (NodeClass_name c)
      else ClsInt (NodeClass_value c))"

text \<open>The two encodings of Object and of Variable.\<close>

definition is_object_cls :: "cls_val \<Rightarrow> bool" where
  "is_object_cls c = (c = ClsInt 1 \<or> c = ClsStr ''Object'')"

definition is_variable_cls :: "cls_val \<Rightarrow> bool" where
  "is_variable_cls c = (c = ClsInt 2 \<or> c = ClsStr ''Variable'')"

text \<open>Every path below a snapshot extends the path of its parent by its own name.\<close>

fun paths_from :: "string list \<Rightarrow> 'r snapshot \<Rightarrow> bool" where
  "paths_from pre (Snapshot i n c t p v nd ch) =
     (p = pre @ [n] \<and>
      (case ch of None \<Rightarrow> True | Some cs \<Rightarrow> list_all (paths_from p) cs))"

text \<open>A snapshot with every \<^verbatim>\<open>name\<close> blanked: what is left are the other fields and
  the shape of the tree.\<close>

fun erase_names :: "'r snapshot \<Rightarrow> 'r snapshot" where
  "erase_names (Snapshot i n c t p v nd ch) =
     Snapshot i [] c t p v nd (case ch of None \<Rightarrow> None | Some cs \<Rightarrow> Some (map erase_names cs))"


section \<open>A sample address space and a sample server\<close>

text \<open>
  A small plant, by node number: the name, class and children of each node, and what
  the reads of its data type and of its value return. Node 4 is a Variable whose value
  read fails, node 5 a Method with a Variable below it, node 3 a Variable with a
  property below it, node 8 a Byte variable holding zero.
\<close>

definition plant_table ::
  "(nat \<times> string \<times> node_class \<times> nat list \<times> (exn + variant_type) \<times> (exn + pyval)) list" where
  "plant_table =
    [(0, ''0:Root'', Object, [1, 2, 5], Inl BadAttributeIdInvalid, Inl BadAttributeIdInvalid),
     (1, ''1:A'', Object, [3], Inl BadAttributeIdInvalid, Inl BadAttributeIdInvalid),
     (2, ''1:B'', Object, [4, 8], Inl BadAttributeIdInvalid, Inl BadAttributeIdInvalid),
     (3, ''1:Level'', Variable, [7], Inr Int32, Inr (PyInt 42)),
     (4, ''1:Flow'', Variable, [], Inr Double, Inl BadOutOfService),
     (5, ''1:Reset'', Method, [6], Inl BadAttributeIdInvalid, Inl BadAttributeIdInvalid),
     (6, ''0:InputArguments'', Variable, [], Inr ExtensionObject,
         Inr (PyList [PyObject ''asyncua.ua.uaprotocol_auto'' True])),
     (7, ''0:EURange'', Variable, [], Inl (UaError ''BadNodeIdUnknown''), Inr (PyInt 7)),
     (8, ''1:Mode'', Variable, [], Inr Byte, Inr (PyInt 0))]"

definition plant :: "nat source" where
  "plant =
    \<lparr> nodeid_to_string = (\<lambda>r. ''ns=1;i='' @ str_nat r),
      read_node_class = (\<lambda>r. case map_of plant_table r of
          None \<Rightarrow> Inl (UaError ''BadNodeIdUnknown'') | Some (n, c, cs, t, v) \<Rightarrow> Inr c),
      read_browse_name = (\<lambda>r. case map_of plant_table r of
          None \<Rightarrow> Inl (UaError ''BadNodeIdUnknown'') | Some (n, c, cs, t, v) \<Rightarrow> Inr n),
      get_children = (\<lambda>r. case map_of plant_table r of
          None \<Rightarrow> Inl (UaError ''BadNodeIdUnknown'') | Some (n, c, cs, t, v) \<Rightarrow> Inr cs),
      read_data_type_as_variant_type = (\<lambda>r. case map_of plant_table r of
          None \<Rightarrow> Inl (UaError ''BadNodeIdUnknown'') | Some (n, c, cs, t, v) \<Rightarrow> t),
      get_value = (\<lambda>r. case map_of plant_table r of
          None \<Rightarrow> Inl (UaError ''BadNodeIdUnknown'') | Some (n, c, cs, t, v) \<Rightarrow> v) \<rparr>"

text \<open>
  A second address space: under the root, the Objects \<open>1:A\<close> (node 1) and \<open>1:B\<close>
  (node 2) with one Variable each; the Variable below node 1 bears the name of node 2.
  Names are unique among the children of each node.
\<close>

definition yard_table ::
  "(nat \<times> string \<times> node_class \<times> nat list \<times> (exn + variant_type) \<times> (exn + pyval)) list" where
  "yard_table =
    [(0, ''0:Root'', Object, [1, 2], Inl BadAttributeIdInvalid, Inl BadAttributeIdInvalid),
     (1, ''1:A'', Object, [3], Inl BadAttributeIdInvalid, Inl BadAttributeIdInvalid),
     (2, ''1:B'', Object, [4], Inl BadAttributeIdInvalid, Inl BadAttributeIdInvalid),
     (3, ''1:B'', Variable, [], Inr Int32, Inr (PyInt 1)),
     (4, ''1:C'', Variable, [], Inr Int32, Inr (PyInt 2))]"

definition yard :: "nat source" where
  "yard =
    \<lparr> nodeid_to_string = (\<lambda>r. ''ns=1;i='' @ str_nat r),
      read_node_class = (\<lambda>r. case map_of yard_table r of
          None \<Rightarrow> Inl (UaError ''BadNodeIdUnknown'') | Some (n, c, cs, t, v) \<Rightarrow> Inr c),
      read_browse_name = (\<lambda>r. case map_of yard_table r of
          None \<Rightarrow> Inl (UaError ''BadNodeIdUnknown'') | Some (n, c, cs, t, v) \<Rightarrow> Inr n),
      get_children = (\<lambda>r. case map_of yard_table r of
          None \<Rightarrow> Inl (UaError ''BadNodeIdUnknown'') | Some (n, c, cs, t, v) \<Rightarrow> Inr cs),
      read_data_type_as_variant_type = (\<lambda>r. case map_of yard_table r of
          None \<Rightarrow> Inl (UaError ''BadNodeIdUnknown'') | Some (n, c, cs, t, v) \<Rightarrow> t),
      get_value = (\<lambda>r. case map_of yard_table r of
          None \<Rightarrow> Inl (UaError ''BadNodeIdUnknown'') | Some (n, c, cs, t, v) \<Rightarrow> v) \<rparr>"

text \<open>The truth value of a \<^verbatim>\<open>VariantType\<close> member when the library declares a plain
  enumeration.\<close>

definition enum_bool :: "variant_type \<Rightarrow> bool" where
  "enum_bool t = True"

text \<open>
  A server that records what is created on it, in order. A node is known by its
  identifier string; creating a node under an identifier already in use fails, as does
  creating a variable of type \<^verbatim>\<open>Guid\<close>. The clock counts the nodes created so far.
\<close>

datatype created =
    CreatedObject string string string
  | CreatedVariable string string string pyval "variant_type option"

fun created_id :: "created \<Rightarrow> string" where
  "created_id (CreatedObject parent i n) = i"
| "created_id (CreatedVariable parent i n v t) = i"

definition server :: "(string, created list) target" where
  "server =
    \<lparr> Node_add_object = (\<lambda>parent i n st.
        if i \<in> set (map created_id st) then (Inl (UaError ''BadNodeIdExists''), st)
        else (Inr i, st @ [CreatedObject parent i n])),
      Node_add_variable = (\<lambda>parent i n v t st.
        if i \<in> set (map created_id st) then (Inl (UaError ''BadNodeIdExists''), st)
        else if t = Some Guid then (Inl (PyException ''ValueError''), st)
        else (Inr i, st @ [CreatedVariable parent i n v t])),
      Node_nodeid_to_string = (\<lambda>r. r),
      datetime_today = (\<lambda>st. PyDateTime (int (length st))) \<rparr>"

section \<open>Properties\<close>

subsection \<open>Auxiliary facts about the export\<close>

lemma nodes_simp: "nodes s = s # descendants s"
  by (cases s) (simp add: descendants_def kids_def split: option.splits)

lemma cls_of_class_allowed:
  "c \<in> {Object, Variable} \<Longrightarrow>
   is_object_cls (cls_of_class e c) \<or> is_variable_cls (cls_of_class e c)"
  by (auto simp: cls_of_class_def is_object_cls_def is_variable_cls_def)

lemma make_output_cls:
  "snap_cls (make_output vt node e i n c p ch t v) = cls_of_class e c"
  by (simp add: make_output_def cls_of_class_def Let_def)

lemma make_output_kids:
  "kids (make_output vt node e i n c p ch t v) = ch"
  by (cases ch) (simp_all add: make_output_def kids_def Let_def)

lemma browse_nodes_SucE:
  assumes "browse_nodes vt src (Suc depth) node e path = Inr s"
  obtains c n cs ch t v where
    "read_node_class src node = Inr c" "read_browse_name src node = Inr n"
    "get_children src node = Inr cs"
    "browse_children vt src depth cs e (case path of None \<Rightarrow> [n] | Some p \<Rightarrow> p @ [n]) = Inr ch"
    "read_var_type src node c = Inr t" "read_current_value src node c = Inr v"
    "s = make_output vt node e (nodeid_to_string src node) n c
           (case path of None \<Rightarrow> [n] | Some p \<Rightarrow> p @ [n]) ch t v"
  using assms by (auto simp: Let_def split: sum.splits)

lemma browse_children_ConsE:
  assumes "browse_children vt src depth (child # rest) e path = Inr ss"
  obtains (keep) c s1 ss1 where
    "read_node_class src child = Inr c" "c \<in> {Object, Variable}"
    "browse_nodes vt src depth child e (Some path) = Inr s1"
    "browse_children vt src depth rest e path = Inr ss1" "ss = s1 # ss1"
  | (drop) c where
    "read_node_class src child = Inr c" "c \<notin> {Object, Variable}"
    "browse_children vt src depth rest e path = Inr ss"
  using assms by (auto split: sum.splits if_splits)

lemma browse_cls:
  "browse_nodes vt src depth node e path = Inr s \<Longrightarrow>
      (\<exists>c. read_node_class src node = Inr c \<and> snap_cls s = cls_of_class e c) \<and>
      (\<forall>d \<in> set (descendants s). is_object_cls (snap_cls d) \<or> is_variable_cls (snap_cls d))"
  and
  "browse_children vt src depth cs e p = Inr ss \<Longrightarrow>
      (\<forall>s \<in> set ss. \<forall>d \<in> set (nodes s).
          is_object_cls (snap_cls d) \<or> is_variable_cls (snap_cls d))"
proof (induction vt src depth node e path and vt src depth cs e p arbitrary: s and ss
       rule: browse_nodes_browse_children.induct)
  case (1 vt_bool src node to_export path)
  then show ?case by simp
next
  case (2 vt_bool src depth node to_export path)
  from "2.prems" show ?case
  proof (rule browse_nodes_SucE)
    fix c n cs ch t v
    assume c: "read_node_class src node = Inr c" and n: "read_browse_name src node = Inr n"
      and cs: "get_children src node = Inr cs"
      and ch: "browse_children vt_bool src depth cs to_export
                 (case path of None \<Rightarrow> [n] | Some p \<Rightarrow> p @ [n]) = Inr ch"
      and s: "s = make_output vt_bool node to_export (nodeid_to_string src node) n c
                 (case path of None \<Rightarrow> [n] | Some p \<Rightarrow> p @ [n]) ch t v"
    from "2.IH"[OF c n refl cs ch]
    have "\<forall>s \<in> set ch. \<forall>d \<in> set (nodes s).
            is_object_cls (snap_cls d) \<or> is_variable_cls (snap_cls d)" .
    then show ?thesis
      using c s by (auto simp: make_output_cls descendants_def make_output_kids)
  qed
next
  case (3 vt_bool src depth to_export path)
  then show ?case by simp
next
  case (4 vt_bool src depth child rest to_export path)
  from "4.prems" show ?case
  proof (cases rule: browse_children_ConsE)
    case (keep c s1 ss1)
    from "4.IH"(1)[OF keep(1,2,3)]
    have h1: "snap_cls s1 = cls_of_class to_export c"
      and h2: "\<forall>d \<in> set (descendants s1).
                 is_object_cls (snap_cls d) \<or> is_variable_cls (snap_cls d)"
      using keep(1) by auto
    from "4.IH"(2)[OF keep(1,2,3,4)]
    have h3: "\<forall>s \<in> set ss1. \<forall>d \<in> set (nodes s).
                is_object_cls (snap_cls d) \<or> is_variable_cls (snap_cls d)" .
    from h1 cls_of_class_allowed[OF keep(2), of to_export]
    have "is_object_cls (snap_cls s1) \<or> is_variable_cls (snap_cls s1)" by simp
    with h2 h3 keep(5) show ?thesis by (auto simp: nodes_simp)
  next
    case (drop c)
    from "4.IH"(3)[OF drop(1,2,3)] show ?thesis .
  qed
qed

text \<open>What the export of the sample plant returns, from the root (node 0, in export
  mode) and from the Method node 5.\<close>

lemma plant_export:
  "browse_nodes enum_bool plant 10 0 True None =
   Inr (Snapshot ''ns=1;i=0'' ''0:Root'' (ClsStr ''Object'') None [''0:Root''] None None
     (Some
       [Snapshot ''ns=1;i=1'' ''1:A'' (ClsStr ''Object'') None [''0:Root'', ''1:A''] None None
         (Some
           [Snapshot ''ns=1;i=3'' ''1:Level'' (ClsStr ''Variable'') (Some (TypeStr ''Int32''))
             [''0:Root'', ''1:A'', ''1:Level''] (Some (PyInt 42)) None
             (Some
               [Snapshot ''ns=1;i=7'' ''0:EURange'' (ClsStr ''Variable'') None
                 [''0:Root'', ''1:A'', ''1:Level'', ''0:EURange''] None None None])]),
        Snapshot ''ns=1;i=2'' ''1:B'' (ClsStr ''Object'') None [''0:Root'', ''1:B''] None None
         (Some
           [Snapshot ''ns=1;i=4'' ''1:Flow'' (ClsStr ''Variable'') (Some (TypeStr ''Double''))
             [''0:Root'', ''1:B'', ''1:Flow''] (Some PyNone) None None,
            Snapshot ''ns=1;i=8'' ''1:Mode'' (ClsStr ''Variable'') (Some (TypeStr ''Byte''))
             [''0:Root'', ''1:B'', ''1:Mode''] (Some (PyInt 0)) None None])]))"
  by code_simp

subsection \<open>Name normalization\<close>

text \<open>
  C7. \<^verbatim>\<open>fix_name\<close> is a function of its two arguments that applies the rules in order:
  a leading \<^verbatim>\<open>http://\<close> is stripped; if what is left starts with one digit and a colon,
  the digit is replaced by the decimal string of the namespace index; otherwise what is
  left is returned. The three examples of the specification hold.
\<close>

theorem fix_name_rules:
  "fix_name ''http://foo/bar'' 3 = ''foo/bar''
   \<and> fix_name ''1:Pressure'' 5 = ''5:Pressure''
   \<and> fix_name ''Pressure'' 5 = ''Pressure''
   \<and> fix_name (''http://'' @ rest) idx =
        (if matches_digit_colon rest then str_int idx @ drop 1 rest else rest)
   \<and> (d \<in> set ''0123456789'' \<longrightarrow>
        fix_name (d # CHR '':'' # rest) idx = str_int idx @ CHR '':'' # rest)
   \<and> (\<not> startswith name ''http://'' \<and> \<not> matches_digit_colon name \<longrightarrow>
        fix_name name idx = name)"
proof -
  have "str_int 5 = ''5''"
    by (simp add: str_int_def)
  then show ?thesis
    by (auto simp: fix_name_def startswith_def)
qed

theorem fix_name_rules_witness:
  "fix_name ''7:Temperature'' 12 = ''12:Temperature''
   \<and> fix_name ''Temperature'' 12 = ''Temperature''
   \<and> fix_name ''http://2:x'' (- 4) = ''-4:x''"
proof -
  have s12: "str_int 12 = ''12''" and s4: "str_int (- 4) = ''-4''"
    by (simp_all add: str_int_def)
  have m: "matches_digit_colon ''2:x''" and nm: "\<not> matches_digit_colon ''Temperature''"
    and ns: "\<not> startswith ''Temperature'' ''http://''" and d: "CHR ''7'' \<in> set ''0123456789''"
    by (simp_all add: startswith_def)
  have a: "fix_name ''http://2:x'' (- 4) = ''-4:x''"
    using fix_name_rules[where rest = "''2:x''" and idx = "- 4"] m s4 by simp
  have b: "fix_name ''7:Temperature'' 12 = ''12:Temperature''"
    using fix_name_rules[where d = "CHR ''7''" and rest = "''Temperature''" and idx = 12] d s12
    by simp
  have c: "fix_name ''Temperature'' 12 = ''Temperature''"
    using fix_name_rules[where name = "''Temperature''" and idx = 12] nm ns by simp
  from a b c show ?thesis by simp
qed

subsection \<open>Class filtering\<close>

text \<open>
  C1, as amended. The filter on the node class is applied to the children a node
  enumerates, not to the node \<^verbatim>\<open>browse_nodes\<close> is called on: every snapshot below the
  top-level entry has class Object or Variable, while the top-level entry carries the
  class of the given node, whatever it is.
\<close>

theorem browse_nodes_class_filter:
  assumes "browse_nodes vt_bool src depth node to_export path = Inr s"
  shows "(\<forall>d \<in> set (descendants s). is_object_cls (snap_cls d) \<or> is_variable_cls (snap_cls d))
         \<and> (\<exists>c. read_node_class src node = Inr c \<and> snap_cls s = cls_of_class to_export c)"
  using browse_cls(1)[OF assms] by simp

theorem browse_nodes_class_filter_witness:
  "\<exists>s. browse_nodes enum_bool plant 10 0 True None = Inr s
       \<and> length (descendants s) = 6
       \<and> list_all (\<lambda>d. is_object_cls (snap_cls d) \<or> is_variable_cls (snap_cls d)) (descendants s)
       \<and> snap_cls s = cls_of_class True Object"
proof -
  from browse_nodes_class_filter[OF plant_export]
  show ?thesis
    unfolding plant_export
    by (simp add: list_all_iff descendants_def kids_def plant_def plant_table_def
                  cls_of_class_def is_object_cls_def is_variable_cls_def)
qed

text \<open>The claim as stated fails when the export starts at a node of another class: the
  Method node 5 of the plant is the top-level entry, and the Variable below it is
  exported as its child.\<close>

theorem browse_nodes_class_filter_counterexample:
  "browse_nodes enum_bool plant 10 5 True None =
     Inr (Snapshot ''ns=1;i=5'' ''1:Reset'' (ClsStr ''Method'') None [''1:Reset''] None None
       (Some
         [Snapshot ''ns=1;i=6'' ''0:InputArguments'' (ClsStr ''Variable'')
           (Some (TypeStr ''ExtensionObject''))
           [''1:Reset'', ''0:InputArguments''] None None None]))
   \<and> \<not> is_object_cls (ClsStr ''Method'') \<and> \<not> is_variable_cls (ClsStr ''Method'')"
  by code_simp

subsection \<open>Auxiliary facts about children and paths\<close>

lemma browse_children_length:
  "browse_children vt src depth cs e p = Inr ss \<Longrightarrow>
   length ss = length (filter (\<lambda>c. read_node_class src c = Inr Object
                                  \<or> read_node_class src c = Inr Variable) cs)"
proof (induction cs arbitrary: ss)
  case Nil
  then show ?case by simp
next
  case (Cons child rest)
  from Cons.prems show ?case
  proof (cases rule: browse_children_ConsE)
    case (keep c s1 ss1)
    with Cons.IH[OF keep(4)] show ?thesis by auto
  next
    case (drop c)
    with Cons.IH[OF drop(3)] show ?thesis by auto
  qed
qed

lemma make_output_children:
  "snap_children (make_output vt node e i n c p ch t v) =
     (if e \<and> ch = [] then None else Some ch)"
  by (simp add: make_output_def Let_def)

lemma make_output_path_name:
  "snap_path (make_output vt node e i n c p ch t v) = p"
  "snap_name (make_output vt node e i n c p ch t v) = n"
  by (simp_all add: make_output_def Let_def)

lemma paths_from_iff:
  "paths_from pre s = (snap_path s = pre @ [snap_name s] \<and> list_all (paths_from (snap_path s)) (kids s))"
  by (cases s) (auto simp: kids_def split: option.splits)

lemma browse_paths:
  "browse_nodes vt src depth node e path = Inr s \<Longrightarrow>
     paths_from (case path of None \<Rightarrow> [] | Some p \<Rightarrow> p) s"
  and
  "browse_children vt src depth cs e p = Inr ss \<Longrightarrow> list_all (paths_from p) ss"
proof (induction vt src depth node e path and vt src depth cs e p arbitrary: s and ss
       rule: browse_nodes_browse_children.induct)
  case (1 vt_bool src node to_export path)
  then show ?case by simp
next
  case (2 vt_bool src depth node to_export path)
  from "2.prems" show ?case
  proof (rule browse_nodes_SucE)
    fix c n cs ch t v
    assume c: "read_node_class src node = Inr c" and n: "read_browse_name src node = Inr n"
      and cs: "get_children src node = Inr cs"
      and ch: "browse_children vt_bool src depth cs to_export
                 (case path of None \<Rightarrow> [n] | Some p \<Rightarrow> p @ [n]) = Inr ch"
      and s: "s = make_output vt_bool node to_export (nodeid_to_string src node) n c
                 (case path of None \<Rightarrow> [n] | Some p \<Rightarrow> p @ [n]) ch t v"
    from "2.IH"[OF c n refl cs ch]
    have "list_all (paths_from (case path of None \<Rightarrow> [n] | Some p \<Rightarrow> p @ [n])) ch" .
    then show ?thesis
      unfolding s paths_from_iff[of _ "make_output _ _ _ _ _ _ _ _ _ _"]
      by (simp add: make_output_path_name make_output_kids split: option.splits)
  qed
next
  case (3 vt_bool src depth to_export path)
  then show ?case by simp
next
  case (4 vt_bool src depth child rest to_export path)
  from "4.prems" show ?case
  proof (cases rule: browse_children_ConsE)
    case (keep c s1 ss1)
    from "4.IH"(1)[OF keep(1,2,3)] "4.IH"(2)[OF keep(1,2,3,4)] keep(5)
    show ?thesis by simp
  next
    case (drop c)
    from "4.IH"(3)[OF drop(1,2,3)] show ?thesis .
  qed
qed

lemma paths_from_names:
  "paths_from pre s \<Longrightarrow> d \<in> set (nodes s) \<Longrightarrow>
   set (snap_path d) \<subseteq> set pre \<union> snap_name ` set (nodes s)"
proof (induction pre s arbitrary: d rule: paths_from.induct)
  case (1 pre i n c t p v nd ch)
  let ?s = "Snapshot i n c t p v nd ch"
  from "1.prems"(1) have p: "p = pre @ [n]" by simp
  show ?case
  proof (cases "d = ?s")
    case True
    then show ?thesis using p by auto
  next
    case False
    with "1.prems"(2) obtain cs k where ch: "ch = Some cs" and k: "k \<in> set cs"
      and d: "d \<in> set (nodes k)"
      by (auto split: option.splits)
    from "1.prems"(1) ch k have pk: "paths_from p k"
      by (auto simp: list_all_iff)
    from "1.IH"[OF ch k pk d]
    have a: "set (snap_path d) \<subseteq> set p \<union> snap_name ` set (nodes k)" .
    have "set (nodes k) \<subseteq> set (nodes ?s)"
      using ch k by auto
    then have b: "snap_name ` set (nodes k) \<subseteq> snap_name ` set (nodes ?s)"
      by (rule image_mono)
    have "n \<in> snap_name ` set (nodes ?s)"
      by force
    with p have c: "set p \<subseteq> set pre \<union> snap_name ` set (nodes ?s)"
      by (simp del: nodes.simps)
    from a b c show ?thesis by blast
  qed
qed

lemma make_output_current_value:
  "snap_current_value (make_output vt node e i n c p ch t v) =
     (if var_type_truthy vt t
      then (case v of None \<Rightarrow> None
            | Some x \<Rightarrow> if e \<and> truthy x \<and> check_if_object_is_from_module x ''asyncua''
                        then None else Some x)
      else None)"
  by (auto simp: make_output_def Let_def split: option.splits)

text \<open>The exports of single nodes of the plant: the Variable 3 with its property, the
  Variable 4 whose value cannot be read, the Variable 7 whose type cannot be read.\<close>

lemma plant_export_3:
  "browse_nodes enum_bool plant 10 3 True None =
   Inr (Snapshot ''ns=1;i=3'' ''1:Level'' (ClsStr ''Variable'') (Some (TypeStr ''Int32''))
          [''1:Level''] (Some (PyInt 42)) None
          (Some [Snapshot ''ns=1;i=7'' ''0:EURange'' (ClsStr ''Variable'') None
                   [''1:Level'', ''0:EURange''] None None None]))"
  by code_simp

lemma plant_export_4:
  "browse_nodes enum_bool plant 10 4 True None =
   Inr (Snapshot ''ns=1;i=4'' ''1:Flow'' (ClsStr ''Variable'') (Some (TypeStr ''Double''))
          [''1:Flow''] (Some PyNone) None None)"
  by code_simp

lemma plant_export_7:
  "browse_nodes enum_bool plant 10 7 True None =
   Inr (Snapshot ''ns=1;i=7'' ''0:EURange'' (ClsStr ''Variable'') None
          [''0:EURange''] None None None)"
  by code_simp

lemma plant_reads:
  "read_node_class plant 3 = Inr Variable"
  "read_data_type_as_variant_type plant 3 = Inr Int32"
  "get_value plant 3 = Inr (PyInt 42)"
  "get_children plant 3 = Inr [7]"
  "read_node_class plant 7 = Inr Variable"
  "read_data_type_as_variant_type plant 7 = Inl (UaError ''BadNodeIdUnknown'')"
  "get_value plant 7 = Inr (PyInt 7)"
  "read_node_class plant 4 = Inr Variable"
  "read_browse_name plant 4 = Inr ''1:Flow''"
  "get_children plant 4 = Inr []"
  "read_data_type_as_variant_type plant 4 = Inr Double"
  "get_value plant 4 = Inl BadOutOfService"
  by (simp_all add: plant_def plant_table_def)

subsection \<open>The captured value\<close>

text \<open>
  C2, as amended. The \<^verbatim>\<open>current_value\<close> key is present exactly when the node is a
  Variable whose declared type was resolved to a truthy \<^verbatim>\<open>VariantType\<close> and, in export
  mode, the captured value is not a truthy object of the asyncua library; whether the read
  of the value succeeded plays no part. When the read of the value fails with one of the
  four listed errors the export goes on and returns, and the captured value is \<^verbatim>\<open>None\<close>:
  the key is present with that value if the type was resolved, absent otherwise.
\<close>

theorem browse_nodes_current_value:
  "(browse_nodes vt_bool src depth node to_export path = Inr s \<longrightarrow>
      (snap_current_value s \<noteq> None) =
        (read_node_class src node = Inr Variable
         \<and> (\<exists>t. read_data_type_as_variant_type src node = Inr t \<and> vt_bool t)
         \<and> \<not> (to_export \<and> (\<exists>x. get_value src node = Inr x \<and> truthy x
                                  \<and> check_if_object_is_from_module x ''asyncua''))))
   \<and> (read_node_class src node = Inr Variable \<and> read_browse_name src node = Inr n
        \<and> get_children src node = Inr cs
        \<and> browse_children vt_bool src depth cs to_export
             (case path of None \<Rightarrow> [n] | Some p \<Rightarrow> p @ [n]) = Inr ch
        \<and> read_var_type src node Variable = Inr t
        \<and> get_value src node = Inl err \<and> is_value_read_error err
      \<longrightarrow> (\<exists>s1. browse_nodes vt_bool src (Suc depth) node to_export path = Inr s1
                \<and> snap_current_value s1 =
                    (if var_type_truthy vt_bool t then Some PyNone else None)))"
proof (intro conjI impI)
  assume a: "browse_nodes vt_bool src depth node to_export path = Inr s"
  then obtain d where d: "depth = Suc d" by (cases depth) auto
  from a[unfolded d] show "(snap_current_value s \<noteq> None) =
        (read_node_class src node = Inr Variable
         \<and> (\<exists>t. read_data_type_as_variant_type src node = Inr t \<and> vt_bool t)
         \<and> \<not> (to_export \<and> (\<exists>x. get_value src node = Inr x \<and> truthy x
                                  \<and> check_if_object_is_from_module x ''asyncua'')))"
  proof (rule browse_nodes_SucE)
    fix c n cs ch t v
    assume c: "read_node_class src node = Inr c"
      and t: "read_var_type src node c = Inr t"
      and v: "read_current_value src node c = Inr v"
      and s: "s = make_output vt_bool node to_export (nodeid_to_string src node) n c
                 (case path of None \<Rightarrow> [n] | Some p \<Rightarrow> p @ [n]) ch t v"
    show ?thesis
    proof (cases "c = Variable")
      case False
      with t have "t = None" by (simp add: read_var_type_def)
      with False c show ?thesis
        unfolding s make_output_current_value by (simp add: var_type_truthy_def)
    next
      case True
      with t v c show ?thesis
        unfolding s make_output_current_value
        by (auto simp: var_type_truthy_def read_var_type_def read_current_value_def
                 split: sum.splits if_splits option.splits)
    qed
  qed
next
  assume "read_node_class src node = Inr Variable \<and> read_browse_name src node = Inr n
        \<and> get_children src node = Inr cs
        \<and> browse_children vt_bool src depth cs to_export
             (case path of None \<Rightarrow> [n] | Some p \<Rightarrow> p @ [n]) = Inr ch
        \<and> read_var_type src node Variable = Inr t
        \<and> get_value src node = Inl err \<and> is_value_read_error err"
  then show "\<exists>s1. browse_nodes vt_bool src (Suc depth) node to_export path = Inr s1
                \<and> snap_current_value s1 =
                    (if var_type_truthy vt_bool t then Some PyNone else None)"
    by (simp add: read_current_value_def make_output_current_value Let_def)
qed

theorem browse_nodes_current_value_witness:
  "(\<exists>s1. browse_nodes enum_bool plant 10 4 False None = Inr s1
         \<and> snap_current_value s1 = Some PyNone)
   \<and> snap_current_value
        (Snapshot ''ns=1;i=3'' ''1:Level'' (ClsStr ''Variable'') (Some (TypeStr ''Int32''))
          [''1:Level''] (Some (PyInt 42)) None
          (Some [Snapshot ''ns=1;i=7'' ''0:EURange'' (ClsStr ''Variable'') None
                   [''1:Level'', ''0:EURange''] None None None])) \<noteq> None"
proof -
  have ten: "(10::nat) = Suc 9" by simp
  have t: "read_var_type plant 4 Variable = Inr (Some Double)"
    by (simp add: read_var_type_def plant_reads)
  have ch: "browse_children enum_bool plant 9 [] False
             (case None of None \<Rightarrow> [''1:Flow''] | Some p \<Rightarrow> p @ [''1:Flow'']) = Inr []"
    by simp
  from browse_nodes_current_value[of enum_bool plant 9 4 False None _ "''1:Flow''" "[]" "[]"
        "Some Double" BadOutOfService]
  have a: "\<exists>s1. browse_nodes enum_bool plant 10 4 False None = Inr s1
         \<and> snap_current_value s1 = Some PyNone"
    using t ch plant_reads unfolding ten
    by (simp add: var_type_truthy_def enum_bool_def)
  from browse_nodes_current_value[of enum_bool plant 10 3 True None, THEN conjunct1, rule_format,
        OF plant_export_3]
  have b: "snap_current_value
        (Snapshot ''ns=1;i=3'' ''1:Level'' (ClsStr ''Variable'') (Some (TypeStr ''Int32''))
          [''1:Level''] (Some (PyInt 42)) None
          (Some [Snapshot ''ns=1;i=7'' ''0:EURange'' (ClsStr ''Variable'') None
                   [''1:Level'', ''0:EURange''] None None None])) \<noteq> None"
    by (simp add: plant_reads enum_bool_def)
  from a b show ?thesis by simp
qed

text \<open>The claim as stated fails twice on the plant: the value read of node 4 fails
  with a listed error and the key is present, holding \<^verbatim>\<open>None\<close>; node 7 is a Variable
  whose value read succeeds and the key is absent, because its type could not be read.\<close>

theorem browse_nodes_current_value_counterexample:
  "get_value plant 4 = Inl BadOutOfService
   \<and> browse_nodes enum_bool plant 10 4 True None =
       Inr (Snapshot ''ns=1;i=4'' ''1:Flow'' (ClsStr ''Variable'') (Some (TypeStr ''Double''))
              [''1:Flow''] (Some PyNone) None None)
   \<and> read_node_class plant 7 = Inr Variable \<and> get_value plant 7 = Inr (PyInt 7)
   \<and> browse_nodes enum_bool plant 10 7 True None =
       Inr (Snapshot ''ns=1;i=7'' ''0:EURange'' (ClsStr ''Variable'') None
              [''0:EURange''] None None None)"
  by (simp add: plant_export_4 plant_export_7 plant_reads)

subsection \<open>The children of a Variable\<close>

text \<open>
  C4, as amended. Children are collected for a node of any class, a Variable included:
  in internal mode every snapshot has a \<^verbatim>\<open>children\<close> key; in export mode a snapshot has
  it exactly when the node has at least one child of class Object or Variable, and it
  then holds one snapshot for each such child.
\<close>

theorem browse_nodes_children_field:
  assumes "browse_nodes vt_bool src depth node to_export path = Inr s"
  shows "\<exists>cs. get_children src node = Inr cs
           \<and> (snap_children s \<noteq> None) =
               (\<not> to_export \<or> (\<exists>c \<in> set cs. read_node_class src c = Inr Object
                                            \<or> read_node_class src c = Inr Variable))
           \<and> length (kids s) =
               length (filter (\<lambda>c. read_node_class src c = Inr Object
                                    \<or> read_node_class src c = Inr Variable) cs)"
proof -
  from assms obtain d where d: "depth = Suc d" by (cases depth) auto
  from assms[unfolded d] show ?thesis
  proof (rule browse_nodes_SucE)
    fix c n cs ch t v
    assume cs: "get_children src node = Inr cs"
      and ch: "browse_children vt_bool src d cs to_export
                 (case path of None \<Rightarrow> [n] | Some p \<Rightarrow> p @ [n]) = Inr ch"
      and s: "s = make_output vt_bool node to_export (nodeid_to_string src node) n c
                 (case path of None \<Rightarrow> [n] | Some p \<Rightarrow> p @ [n]) ch t v"
    let ?keep = "\<lambda>c. read_node_class src c = Inr Object \<or> read_node_class src c = Inr Variable"
    from browse_children_length[OF ch] have len: "length ch = length (filter ?keep cs)" .
    then have "(ch = []) = (filter ?keep cs = [])" by auto
    then have "(ch \<noteq> []) = (\<exists>c \<in> set cs. ?keep c)"
      by (simp add: filter_empty_conv)
    with len cs show ?thesis
      unfolding s by (auto simp: make_output_children make_output_kids)
  qed
qed

theorem browse_nodes_children_field_witness:
  "snap_children
     (Snapshot ''ns=1;i=4'' ''1:Flow'' (ClsStr ''Variable'') (Some (TypeStr ''Double''))
          [''1:Flow''] (Some PyNone) None None) = None
   \<and> length (kids (Snapshot ''ns=1;i=3'' ''1:Level'' (ClsStr ''Variable'')
          (Some (TypeStr ''Int32'')) [''1:Level''] (Some (PyInt 42)) None
          (Some [Snapshot ''ns=1;i=7'' ''0:EURange'' (ClsStr ''Variable'') None
                   [''1:Level'', ''0:EURange''] None None None]))) = 1"
  using browse_nodes_children_field[OF plant_export_4]
        browse_nodes_children_field[OF plant_export_3]
  by (simp add: plant_reads kids_def)

text \<open>The claim as stated fails on the Variable 3 of the plant, which has a property:
  its exported snapshot has a \<^verbatim>\<open>children\<close> key holding the property's snapshot.\<close>

theorem browse_nodes_children_field_counterexample:
  "read_node_class plant 3 = Inr Variable
   \<and> browse_nodes enum_bool plant 10 3 True None =
      Inr (Snapshot ''ns=1;i=3'' ''1:Level'' (ClsStr ''Variable'') (Some (TypeStr ''Int32''))
          [''1:Level''] (Some (PyInt 42)) None
          (Some [Snapshot ''ns=1;i=7'' ''0:EURange'' (ClsStr ''Variable'') None
                   [''1:Level'', ''0:EURange''] None None None]))"
  by (simp add: plant_export_3 plant_reads)

subsection \<open>Path isolation\<close>

text \<open>
  C8, as amended. Every child is browsed with its own copy of the accumulated path, so
  the paths recorded in the subtree of a child \<open>A\<close> are made of the initial path, the name
  of the parent, and names of nodes of that subtree only. The name of a sibling \<open>B\<close>
  therefore occurs in no path of the subtree of \<open>A\<close>, provided that no node of that
  subtree, nor the parent, nor the initial path bears the same name; and every such path
  starts with the path of the parent.
\<close>

theorem browse_nodes_path_isolation:
  assumes "browse_nodes vt_bool src depth node to_export path = Inr s"
    and "A \<in> set (kids s)" and "B \<in> set (kids s)"
    and "snap_name B \<notin> snap_name ` set (nodes A)"
    and "snap_name B \<noteq> snap_name s"
    and "snap_name B \<notin> set (case path of None \<Rightarrow> [] | Some p \<Rightarrow> p)"
  shows "\<forall>d \<in> set (nodes A). snap_name B \<notin> set (snap_path d)
                               \<and> take (length (snap_path s)) (snap_path d) = snap_path s"
proof
  fix d assume d: "d \<in> set (nodes A)"
  let ?pre = "case path of None \<Rightarrow> [] | Some p \<Rightarrow> p"
  from browse_paths(1)[OF assms(1)] have ps: "paths_from ?pre s" .
  from iffD1[OF paths_from_iff ps]
  have sp: "snap_path s = ?pre @ [snap_name s]"
    and ks: "list_all (paths_from (snap_path s)) (kids s)"
    by blast+
  from ks assms(2) have pa: "paths_from (snap_path s) A"
    by (simp add: list_all_iff)
  from paths_from_names[OF pa d]
  have "set (snap_path d) \<subseteq> set (snap_path s) \<union> snap_name ` set (nodes A)" .
  with sp assms(4,5,6) have one: "snap_name B \<notin> set (snap_path d)"
    by auto
  have "\<And>pre. paths_from pre A \<Longrightarrow> take (length pre) (snap_path d) = pre"
    using d
  proof (induction A arbitrary: d rule: nodes.induct)
    case (1 i n c t p v nd ch pre)
    show ?case
    proof (cases "d = Snapshot i n c t p v nd ch")
      case True
      with "1.prems"(1) show ?thesis by simp
    next
      case False
      with "1.prems"(2) obtain cs k where ch: "ch = Some cs" and k: "k \<in> set cs"
        and dk: "d \<in> set (nodes k)"
        by (auto split: option.splits)
      from "1.prems"(1) ch k have p: "p = pre @ [n]" and pk: "paths_from p k"
        by (auto simp: list_all_iff)
      from "1.IH"[OF ch k pk dk] have "take (length p) (snap_path d) = p" .
      then have "take (length pre) (take (length p) (snap_path d)) = take (length pre) p"
        by simp
      then show ?thesis using p by (simp add: min_def)
    qed
  qed
  from this[OF pa] have two: "take (length (snap_path s)) (snap_path d) = snap_path s" .
  from one two
  show "snap_name B \<notin> set (snap_path d)
        \<and> take (length (snap_path s)) (snap_path d) = snap_path s" by simp
qed

theorem browse_nodes_path_isolation_witness:
  "list_all (\<lambda>d. ''1:B'' \<notin> set (snap_path d) \<and> take 1 (snap_path d) = [''0:Root''])
     (nodes (Snapshot ''ns=1;i=1'' ''1:A'' (ClsStr ''Object'') None [''0:Root'', ''1:A''] None None
         (Some
           [Snapshot ''ns=1;i=3'' ''1:Level'' (ClsStr ''Variable'') (Some (TypeStr ''Int32''))
             [''0:Root'', ''1:A'', ''1:Level''] (Some (PyInt 42)) None
             (Some
               [Snapshot ''ns=1;i=7'' ''0:EURange'' (ClsStr ''Variable'') None
                 [''0:Root'', ''1:A'', ''1:Level'', ''0:EURange''] None None None])])))
   \<and> list_all (\<lambda>d. ''1:A'' \<notin> set (snap_path d))
     (nodes (Snapshot ''ns=1;i=2'' ''1:B'' (ClsStr ''Object'') None [''0:Root'', ''1:B''] None None
         (Some
           [Snapshot ''ns=1;i=4'' ''1:Flow'' (ClsStr ''Variable'') (Some (TypeStr ''Double''))
             [''0:Root'', ''1:B'', ''1:Flow''] (Some PyNone) None None,
            Snapshot ''ns=1;i=8'' ''1:Mode'' (ClsStr ''Variable'') (Some (TypeStr ''Byte''))
             [''0:Root'', ''1:B'', ''1:Mode''] (Some (PyInt 0)) None None])))"
proof -
  let ?A = "Snapshot ''ns=1;i=1'' ''1:A'' (ClsStr ''Object'') None [''0:Root'', ''1:A''] None None
         (Some
           [Snapshot ''ns=1;i=3'' ''1:Level'' (ClsStr ''Variable'') (Some (TypeStr ''Int32''))
             [''0:Root'', ''1:A'', ''1:Level''] (Some (PyInt 42)) None
             (Some
               [Snapshot ''ns=1;i=7'' ''0:EURange'' (ClsStr ''Variable'') None
                 [''0:Root'', ''1:A'', ''1:Level'', ''0:EURange''] None None None])])"
  let ?B = "Snapshot ''ns=1;i=2'' ''1:B'' (ClsStr ''Object'') None [''0:Root'', ''1:B''] None None
         (Some
           [Snapshot ''ns=1;i=4'' ''1:Flow'' (ClsStr ''Variable'') (Some (TypeStr ''Double''))
             [''0:Root'', ''1:B'', ''1:Flow''] (Some PyNone) None None,
            Snapshot ''ns=1;i=8'' ''1:Mode'' (ClsStr ''Variable'') (Some (TypeStr ''Byte''))
             [''0:Root'', ''1:B'', ''1:Mode''] (Some (PyInt 0)) None None])"
  have ab: "\<forall>d \<in> set (nodes ?A). snap_name ?B \<notin> set (snap_path d)
              \<and> take (length [''0:Root'']) (snap_path d) = [''0:Root'']"
    using browse_nodes_path_isolation[OF plant_export, of ?A ?B]
    by (simp add: kids_def)
  have ba: "\<forall>d \<in> set (nodes ?B). snap_name ?A \<notin> set (snap_path d)
              \<and> take (length [''0:Root'']) (snap_path d) = [''0:Root'']"
    using browse_nodes_path_isolation[OF plant_export, of ?B ?A]
    by (simp add: kids_def)
  from ab ba show ?thesis
    by (simp add: list_all_iff)
qed

text \<open>The claim as stated fails when a node below \<open>A\<close> bears the name of \<open>B\<close>, which
  uniqueness of names among siblings allows: in the second address space the path of the
  Variable below \<open>1:A\<close> ends with \<open>1:B\<close>.\<close>

theorem browse_nodes_path_isolation_counterexample:
  "browse_nodes enum_bool yard 10 0 True None =
   Inr (Snapshot ''ns=1;i=0'' ''0:Root'' (ClsStr ''Object'') None [''0:Root''] None None
     (Some
       [Snapshot ''ns=1;i=1'' ''1:A'' (ClsStr ''Object'') None [''0:Root'', ''1:A''] None None
         (Some
           [Snapshot ''ns=1;i=3'' ''1:B'' (ClsStr ''Variable'') (Some (TypeStr ''Int32''))
             [''0:Root'', ''1:A'', ''1:B''] (Some (PyInt 1)) None None]),
        Snapshot ''ns=1;i=2'' ''1:B'' (ClsStr ''Object'') None [''0:Root'', ''1:B''] None None
         (Some
           [Snapshot ''ns=1;i=4'' ''1:C'' (ClsStr ''Variable'') (Some (TypeStr ''Int32''))
             [''0:Root'', ''1:B'', ''1:C''] (Some (PyInt 2)) None None])]))
   \<and> ''1:B'' \<in> set [''0:Root'', ''1:A'', ''1:B'']"
  by code_simp

subsection \<open>Auxiliary facts about the clone\<close>

lemma clone_nodes_variable:
  assumes "is_variable_cls c"
  shows "clone_nodes tgt (Snapshot i n c t p v nd ch) base idx pre st =
     (case add_variable tgt base (Snapshot i (fix_name n idx) c t p v nd ch) (pre @ i) st of
        (Inl e, st1) \<Rightarrow> (Inl e, Snapshot i (fix_name n idx) c t p v nd ch, st1)
      | (Inr None, st1) \<Rightarrow> (Inr [], Snapshot i (fix_name n idx) c t p v nd ch, st1)
      | (Inr (Some next_var), st1) \<Rightarrow>
          (Inr [(i, Node_nodeid_to_string tgt next_var)],
           Snapshot i (fix_name n idx) c t p v nd ch, st1))"
  using assms by (auto simp: is_variable_cls_def Let_def)

lemma clone_nodes_object:
  assumes "is_object_cls c"
  shows "clone_nodes tgt (Snapshot i n c t p v nd ch) base idx pre st =
     (case ch of
        Some (k # ks) \<Rightarrow>
          (case Node_add_object tgt base (pre @ i) (fix_name n idx) st of
             (Inl e, st1) \<Rightarrow> (Inl e, Snapshot i (fix_name n idx) c t p v nd ch, st1)
           | (Inr next_obj, st1) \<Rightarrow>
               (case clone_children tgt (k # ks) next_obj idx pre st1 of
                  (r, ch1, st2) \<Rightarrow> (r, Snapshot i (fix_name n idx) c t p v nd (Some ch1), st2)))
      | _ \<Rightarrow> (Inr [], Snapshot i (fix_name n idx) c t p v nd ch, st))"
  using assms by (auto simp: is_object_cls_def Let_def)

lemma clone_nodes_other:
  assumes "\<not> is_object_cls c" and "\<not> is_variable_cls c"
  shows "clone_nodes tgt (Snapshot i n c t p v nd ch) base idx pre st =
           (Inl NotImplementedError, Snapshot i (fix_name n idx) c t p v nd ch, st)"
  using assms by (auto simp: is_object_cls_def is_variable_cls_def Let_def)

declare clone_nodes.simps(1) [simp del]


lemma clone_children_append:
  "clone_children tgt (xs @ ys) base idx pre st =
     (case clone_children tgt xs base idx pre st of
        (Inl e, xs1, st1) \<Rightarrow> (Inl e, xs1 @ ys, st1)
      | (Inr m, xs1, st1) \<Rightarrow>
          (case clone_children tgt ys base idx pre st1 of
             (Inl e, ys1, st2) \<Rightarrow> (Inl e, xs1 @ ys1, st2)
           | (Inr ms, ys1, st2) \<Rightarrow> (Inr (m @ ms), xs1 @ ys1, st2)))"
proof (induction xs arbitrary: st)
  case Nil
  show ?case by (simp split: prod.splits sum.splits)
next
  case (Cons x xs)
  show ?case
    by (simp add: Cons.IH split: prod.splits sum.splits)
qed

lemma clone_names:
  "snap_name (fst (snd (clone_nodes tgt (s :: 'a snapshot) base idx pre st)))
     = fix_name (snap_name s) idx
   \<and> erase_names (fst (snd (clone_nodes tgt s base idx pre st))) = erase_names s"
  and
  "map erase_names (fst (snd (clone_children tgt (ss :: 'a snapshot list) base idx pre st)))
     = map erase_names ss"
proof (induction tgt s base idx pre st and tgt ss base idx pre st
       rule: clone_nodes_clone_children.induct)
  case (1 tgt i n c t p v nd ch base_object idx node_id_prefix st)
  consider (obj) "is_object_cls c" | (var) "\<not> is_object_cls c" "is_variable_cls c"
    | (other) "\<not> is_object_cls c" "\<not> is_variable_cls c" by blast
  then show ?case
  proof cases
    case obj
    show ?thesis
    proof (cases ch)
      case None
      then show ?thesis by (simp add: clone_nodes_object[OF obj])
    next
      case (Some cs)
      show ?thesis
      proof (cases cs)
        case Nil
        with Some show ?thesis by (simp add: clone_nodes_object[OF obj])
      next
        case (Cons k ks)
        show ?thesis
        proof (cases "Node_add_object tgt base_object (node_id_prefix @ i) (fix_name n idx) st")
          case (Pair r st1)
          show ?thesis
          proof (cases r)
            case (Inl e)
            with Pair Some Cons show ?thesis by (simp add: clone_nodes_object[OF obj])
          next
            case (Inr next_obj)
            from obj have c: "c \<in> {ClsInt 1, ClsStr ''Object''}"
              by (auto simp: is_object_cls_def)
            obtain r2 ch1 st2 where
              cc: "clone_children tgt (k # ks) next_obj idx node_id_prefix st1 = (r2, ch1, st2)"
              by (cases "clone_children tgt (k # ks) next_obj idx node_id_prefix st1") auto
            from "1.IH"[OF refl refl c Some Cons Pair[symmetric] Inr, unfolded cc]
            have "map erase_names ch1 = map erase_names (k # ks)"
              by simp
            with Pair Inr Some Cons cc show ?thesis
              by (simp add: clone_nodes_object[OF obj])
          qed
        qed
      qed
    qed
  next
    case var
    show ?thesis
      by (simp add: clone_nodes_variable[OF var(2)] split: prod.splits sum.splits option.splits)
  next
    case other
    show ?thesis by (simp add: clone_nodes_other[OF other])
  qed
next
  case (2 tgt base_object idx node_id_prefix st)
  show ?case by simp
next
  case (3 tgt child rest base_object idx node_id_prefix st)
  show ?case
  proof (cases "clone_nodes tgt child base_object idx node_id_prefix st")
    case (fields r child1 st1)
    from "3.IH"(1) fields have c1: "erase_names child1 = erase_names child" by simp
    show ?thesis
    proof (cases r)
      case (Inl e)
      with fields c1 show ?thesis by simp
    next
      case (Inr m)
      from "3.IH"(2)[OF fields[symmetric] Inr refl]
      have "map erase_names (fst (snd (clone_children tgt rest base_object idx
               node_id_prefix st1))) = map erase_names rest" by simp
      with fields Inr c1 show ?thesis
        by (auto split: prod.splits sum.splits)
    qed
  qed
qed

subsection \<open>Encodings of the class\<close>


text \<open>Snapshots of the plant as the internal and the export mode produce them, and a
  snapshot of class Method.\<close>

lemma clone_internal_level:
  "clone_nodes server
     (Snapshot ''ns=1;i=3'' ''1:Level'' (ClsInt 2) (Some (TypeEnum Int32))
        [''0:Root'', ''1:A'', ''1:Level''] (Some (PyInt 42)) (Some (3::nat)) (Some []))
     ''ns=0;i=85'' 2 ''c:'' [] =
   (Inr [(''ns=1;i=3'', ''c:ns=1;i=3'')],
    Snapshot ''ns=1;i=3'' ''2:Level'' (ClsInt 2) (Some (TypeEnum Int32))
        [''0:Root'', ''1:A'', ''1:Level''] (Some (PyInt 42)) (Some 3) (Some []),
    [CreatedVariable ''ns=0;i=85'' ''c:ns=1;i=3'' ''2:Level'' (PyInt 42) (Some Int32)])"
  by code_simp


subsection \<open>The snapshot after a clone\<close>

text \<open>
  C9, as amended. \<^verbatim>\<open>clone_nodes\<close> assigns to \<^verbatim>\<open>nodes_dict['name']\<close>: when it returns
  or raises, the \<^verbatim>\<open>name\<close> of the snapshot it was given is \<^verbatim>\<open>fix_name\<close> of the former
  name. Names apart, every field of the snapshot and of the snapshots below it, and the
  shape of the tree, are as they were.
\<close>

theorem clone_nodes_snapshot_after:
  "snap_name (fst (snd (clone_nodes tgt s base idx pre st))) = fix_name (snap_name s) idx
   \<and> erase_names (fst (snd (clone_nodes tgt s base idx pre st))) = erase_names s"
  by (rule clone_names(1))

theorem clone_nodes_snapshot_after_witness:
  "snap_name (fst (snd (clone_nodes server
     (Snapshot ''ns=1;i=3'' ''1:Level'' (ClsInt 2) (Some (TypeEnum Int32))
        [''0:Root'', ''1:A'', ''1:Level''] (Some (PyInt 42)) (Some (3::nat)) (Some []))
     ''ns=0;i=85'' 2 ''c:'' []))) = ''2:Level''"
proof -
  have "fix_name ''1:Level'' 2 = ''2:Level''"
    by (simp add: fix_name_def startswith_def str_int_def)
  with clone_nodes_snapshot_after[of server
     "Snapshot ''ns=1;i=3'' ''1:Level'' (ClsInt 2) (Some (TypeEnum Int32))
        [''0:Root'', ''1:A'', ''1:Level''] (Some (PyInt 42)) (Some (3::nat)) (Some [])"
     "''ns=0;i=85''" 2 "''c:''" "[]"]
  show ?thesis by simp
qed

text \<open>The claim as stated fails on the snapshot of the Variable 3 of the plant, cloned
  into namespace 2: its name is \<^verbatim>\<open>1:Level\<close> before the call and \<^verbatim>\<open>2:Level\<close> after.\<close>

theorem clone_nodes_snapshot_after_counterexample:
  "fst (snd (clone_nodes server
     (Snapshot ''ns=1;i=3'' ''1:Level'' (ClsInt 2) (Some (TypeEnum Int32))
        [''0:Root'', ''1:A'', ''1:Level''] (Some (PyInt 42)) (Some (3::nat)) (Some []))
     ''ns=0;i=85'' 2 ''c:'' []))
   \<noteq> Snapshot ''ns=1;i=3'' ''1:Level'' (ClsInt 2) (Some (TypeEnum Int32))
        [''0:Root'', ''1:A'', ''1:Level''] (Some (PyInt 42)) (Some 3) (Some [])"
  by (simp add: clone_internal_level)

subsection \<open>Extension objects\<close>






subsection \<open>Failure of the creating call\<close>

text \<open>
  C6, as amended. When the server's create-variable call raises, whatever the exception,
  the handler of \<^verbatim>\<open>add_variable\<close> calls \<^verbatim>\<open>exit(1)\<close>: \<^verbatim>\<open>clone_nodes\<close> raises
  \<^verbatim>\<open>SystemExit(1)\<close> for that node, with the server's exception as its context. An
  exception raised for a child ends the loop over the children (the siblings after it are
  not cloned) and leaves the enclosing call unchanged, so the node is never skipped
  silently. What reaches the caller is fixed by the exit status and the server's
  exception: the code puts no node path into it.
\<close>

theorem clone_nodes_create_failure:
  "(is_variable_cls c \<and> get_node_type t = Inr nt
      \<and> original_val v nt (datetime_today tgt st) = Some x
      \<and> Node_add_variable tgt base (pre @ i) (fix_name n idx) x nt st = (Inl e, st1)
    \<longrightarrow> clone_nodes tgt (Snapshot i n c t p v nd ch) base idx pre st =
          (Inl (SystemExit 1 (Some e)), Snapshot i (fix_name n idx) c t p v nd ch, st1))
   \<and> (clone_children tgt before base idx pre st = (Inr m, before1, st2)
      \<and> clone_nodes tgt child base idx pre st2 = (Inl err, child1, st3)
    \<longrightarrow> clone_children tgt (before @ child # rest) base idx pre st =
          (Inl err, before1 @ child1 # rest, st3))
   \<and> (is_object_cls c \<and> ch = Some (k # ks)
      \<and> Node_add_object tgt base (pre @ i) (fix_name n idx) st = (Inr next_obj, st1)
      \<and> fst (clone_children tgt (k # ks) next_obj idx pre st1) = Inl err
    \<longrightarrow> fst (clone_nodes tgt (Snapshot i n c t p v nd ch) base idx pre st) = Inl err)"
proof (intro conjI impI)
  assume a: "is_variable_cls c \<and> get_node_type t = Inr nt
      \<and> original_val v nt (datetime_today tgt st) = Some x
      \<and> Node_add_variable tgt base (pre @ i) (fix_name n idx) x nt st = (Inl e, st1)"
  then have "add_variable tgt base (Snapshot i (fix_name n idx) c t p v nd ch) (pre @ i) st
               = (Inl (SystemExit 1 (Some e)), st1)"
    by (simp add: add_variable_def)
  with a show "clone_nodes tgt (Snapshot i n c t p v nd ch) base idx pre st =
          (Inl (SystemExit 1 (Some e)), Snapshot i (fix_name n idx) c t p v nd ch, st1)"
    by (simp add: clone_nodes_variable)
next
  assume "clone_children tgt before base idx pre st = (Inr m, before1, st2)
      \<and> clone_nodes tgt child base idx pre st2 = (Inl err, child1, st3)"
  then show "clone_children tgt (before @ child # rest) base idx pre st =
          (Inl err, before1 @ child1 # rest, st3)"
    by (simp add: clone_children_append)
next
  assume a: "is_object_cls c \<and> ch = Some (k # ks)
      \<and> Node_add_object tgt base (pre @ i) (fix_name n idx) st = (Inr next_obj, st1)
      \<and> fst (clone_children tgt (k # ks) next_obj idx pre st1) = Inl err"
  obtain r ch1 st2 where
    cc: "clone_children tgt (k # ks) next_obj idx pre st1 = (r, ch1, st2)"
    by (cases "clone_children tgt (k # ks) next_obj idx pre st1") auto
  with a have "r = Inl err" by simp
  with a cc show "fst (clone_nodes tgt (Snapshot i n c t p v nd ch) base idx pre st) = Inl err"
    by (simp add: clone_nodes_object)
qed

text \<open>A Variable of type \<^verbatim>\<open>Guid\<close>, which the sample server refuses to create, cloned
  alone, after a sibling, and below an Object.\<close>

lemma guid_facts:
  "get_node_type (Some (TypeStr ''Guid'')) = Inr (Some Guid)"
  "original_val None (Some Guid) today = Some (PyFloat 0)"
  "Node_add_variable server base i n x (Some Guid) [] = (Inl (PyException ''ValueError''), [])"
  "is_variable_cls (ClsStr ''Variable'')"
  "is_object_cls (ClsStr ''Object'')"
  "fix_name ''1:Id'' 2 = ''2:Id''"
  "fix_name ''0:Root'' 2 = ''2:Root''"
  "Node_add_object server ''ns=0;i=85'' ''c:ns=1;i=0'' ''2:Root'' [] =
     (Inr ''c:ns=1;i=0'', [CreatedObject ''ns=0;i=85'' ''c:ns=1;i=0'' ''2:Root''])"
  by (simp_all add: get_node_type_def VariantType_getitem_def VariantType_names_def
        original_val_def get_truthy_def server_def is_variable_cls_def is_object_cls_def
        fix_name_def startswith_def str_int_def)

lemma clone_guid_after_level:
  "clone_children server
     [Snapshot ''ns=1;i=3'' ''1:Level'' (ClsStr ''Variable'') (Some (TypeStr ''Int32''))
        [''0:Root'', ''1:Level''] (Some (PyInt 42)) (None :: nat option) None]
     ''c:ns=1;i=0'' 2 ''c:'' [CreatedObject ''ns=0;i=85'' ''c:ns=1;i=0'' ''2:Root''] =
   (Inr [(''ns=1;i=3'', ''c:ns=1;i=3'')],
    [Snapshot ''ns=1;i=3'' ''2:Level'' (ClsStr ''Variable'') (Some (TypeStr ''Int32''))
        [''0:Root'', ''1:Level''] (Some (PyInt 42)) None None],
    [CreatedObject ''ns=0;i=85'' ''c:ns=1;i=0'' ''2:Root'',
     CreatedVariable ''c:ns=1;i=0'' ''c:ns=1;i=3'' ''2:Level'' (PyInt 42) (Some Int32)])"
  "clone_nodes server
     (Snapshot ''ns=1;i=9'' ''1:Id'' (ClsStr ''Variable'') (Some (TypeStr ''Guid''))
        [''0:Root'', ''1:Id''] None (None :: nat option) None)
     ''c:ns=1;i=0'' 2 ''c:''
     [CreatedObject ''ns=0;i=85'' ''c:ns=1;i=0'' ''2:Root'',
      CreatedVariable ''c:ns=1;i=0'' ''c:ns=1;i=3'' ''2:Level'' (PyInt 42) (Some Int32)] =
   (Inl (SystemExit 1 (Some (PyException ''ValueError''))),
    Snapshot ''ns=1;i=9'' ''2:Id'' (ClsStr ''Variable'') (Some (TypeStr ''Guid''))
        [''0:Root'', ''1:Id''] None None None,
    [CreatedObject ''ns=0;i=85'' ''c:ns=1;i=0'' ''2:Root'',
     CreatedVariable ''c:ns=1;i=0'' ''c:ns=1;i=3'' ''2:Level'' (PyInt 42) (Some Int32)])"
  by code_simp+

theorem clone_nodes_create_failure_witness:
  "clone_nodes server
     (Snapshot ''ns=1;i=9'' ''1:Id'' (ClsStr ''Variable'') (Some (TypeStr ''Guid''))
        [''0:Root'', ''1:Id''] None (None :: nat option) None)
     ''ns=0;i=85'' 2 ''c:'' [] =
     (Inl (SystemExit 1 (Some (PyException ''ValueError''))),
      Snapshot ''ns=1;i=9'' ''2:Id'' (ClsStr ''Variable'') (Some (TypeStr ''Guid''))
        [''0:Root'', ''1:Id''] None None None, [])
   \<and> fst (clone_nodes server
     (Snapshot ''ns=1;i=0'' ''0:Root'' (ClsStr ''Object'') None [''0:Root''] None
        (None :: nat option)
        (Some
          [Snapshot ''ns=1;i=3'' ''1:Level'' (ClsStr ''Variable'') (Some (TypeStr ''Int32''))
             [''0:Root'', ''1:Level''] (Some (PyInt 42)) None None,
           Snapshot ''ns=1;i=9'' ''1:Id'' (ClsStr ''Variable'') (Some (TypeStr ''Guid''))
             [''0:Root'', ''1:Id''] None None None,
           Snapshot ''ns=1;i=4'' ''1:Flow'' (ClsStr ''Variable'') (Some (TypeStr ''Double''))
             [''0:Root'', ''1:Flow''] (Some PyNone) None None]))
     ''ns=0;i=85'' 2 ''c:'' []) = Inl (SystemExit 1 (Some (PyException ''ValueError'')))"
proof -
  let ?level = "Snapshot ''ns=1;i=3'' ''1:Level'' (ClsStr ''Variable'') (Some (TypeStr ''Int32''))
             [''0:Root'', ''1:Level''] (Some (PyInt 42)) (None :: nat option) None"
  let ?id = "Snapshot ''ns=1;i=9'' ''1:Id'' (ClsStr ''Variable'') (Some (TypeStr ''Guid''))
             [''0:Root'', ''1:Id''] None (None :: nat option) None"
  let ?flow = "Snapshot ''ns=1;i=4'' ''1:Flow'' (ClsStr ''Variable'') (Some (TypeStr ''Double''))
             [''0:Root'', ''1:Flow''] (Some PyNone) (None :: nat option) None"
  let ?st1 = "[CreatedObject ''ns=0;i=85'' ''c:ns=1;i=0'' ''2:Root'']"
  have one: "clone_nodes server ?id ''ns=0;i=85'' 2 ''c:'' [] =
     (Inl (SystemExit 1 (Some (PyException ''ValueError''))),
      Snapshot ''ns=1;i=9'' ''2:Id'' (ClsStr ''Variable'') (Some (TypeStr ''Guid''))
        [''0:Root'', ''1:Id''] None None None, [])"
    using clone_nodes_create_failure[where tgt = server and c = "ClsStr ''Variable''"
        and t = "Some (TypeStr ''Guid'')" and nt = "Some Guid" and v = None and st = "[]"
        and x = "PyFloat 0" and base = "''ns=0;i=85''" and pre = "''c:''" and i = "''ns=1;i=9''"
        and n = "''1:Id''" and idx = 2 and e = "PyException ''ValueError''" and ?st1.0 = "[]",
        THEN conjunct1]
    by (simp add: guid_facts)
  have two: "clone_children server ([?level] @ ?id # [?flow]) ''c:ns=1;i=0'' 2 ''c:'' ?st1 =
     (Inl (SystemExit 1 (Some (PyException ''ValueError''))),
      [Snapshot ''ns=1;i=3'' ''2:Level'' (ClsStr ''Variable'') (Some (TypeStr ''Int32''))
        [''0:Root'', ''1:Level''] (Some (PyInt 42)) None None] @
      Snapshot ''ns=1;i=9'' ''2:Id'' (ClsStr ''Variable'') (Some (TypeStr ''Guid''))
        [''0:Root'', ''1:Id''] None None None # [?flow],
      [CreatedObject ''ns=0;i=85'' ''c:ns=1;i=0'' ''2:Root'',
       CreatedVariable ''c:ns=1;i=0'' ''c:ns=1;i=3'' ''2:Level'' (PyInt 42) (Some Int32)])"
    by (rule clone_nodes_create_failure[where m = "[(''ns=1;i=3'', ''c:ns=1;i=3'')]"
          and ?st2.0 = "[CreatedObject ''ns=0;i=85'' ''c:ns=1;i=0'' ''2:Root'',
             CreatedVariable ''c:ns=1;i=0'' ''c:ns=1;i=3'' ''2:Level'' (PyInt 42) (Some Int32)]",
          THEN conjunct2, THEN conjunct1, rule_format])
       (simp only: clone_guid_after_level simp_thms)
  from two have two1: "fst (clone_children server (?level # [?id, ?flow]) ''c:ns=1;i=0'' 2 ''c:''
                             ?st1) = Inl (SystemExit 1 (Some (PyException ''ValueError'')))"
    by (simp del: clone_children.simps)
  have three: "fst (clone_nodes server
       (Snapshot ''ns=1;i=0'' ''0:Root'' (ClsStr ''Object'') None [''0:Root''] None
          (None :: nat option) (Some (?level # [?id, ?flow])))
       ''ns=0;i=85'' 2 ''c:'' []) = Inl (SystemExit 1 (Some (PyException ''ValueError'')))"
    by (rule clone_nodes_create_failure[where ?st1.0 = ?st1 and next_obj = "''c:ns=1;i=0''"
          and k = ?level and ks = "[?id, ?flow]",
          THEN conjunct2, THEN conjunct2, rule_format])
       (simp add: guid_facts two1 del: clone_children.simps)
  from one three show ?thesis by (simp del: clone_children.simps)
qed

text \<open>The claim as stated fails: two Variables at different paths, refused by the
  server for the same reason, raise the same \<^verbatim>\<open>SystemExit(1)\<close> with the same context,
  which does not tell the caller where the offending node is.\<close>

theorem clone_nodes_create_failure_counterexample:
  "fst (clone_nodes server
     (Snapshot ''ns=1;i=9'' ''1:Id'' (ClsStr ''Variable'') (Some (TypeStr ''Guid''))
        [''0:Root'', ''1:A'', ''1:Id''] None (None :: nat option) None)
     ''ns=0;i=85'' 2 ''c:'' []) = Inl (SystemExit 1 (Some (PyException ''ValueError'')))
   \<and> fst (clone_nodes server
     (Snapshot ''ns=1;i=10'' ''1:Id'' (ClsStr ''Variable'') (Some (TypeStr ''Guid''))
        [''0:Root'', ''1:B'', ''1:Id''] None (None :: nat option) None)
     ''ns=0;i=85'' 2 ''c:'' []) = Inl (SystemExit 1 (Some (PyException ''ValueError'')))
   \<and> [''0:Root'', ''1:A'', ''1:Id''] \<noteq> [''0:Root'', ''1:B'', ''1:Id'']"
  by code_simp

subsection \<open>Falsy captured values\<close>

text \<open>
  C3 does not hold of the code: \<^verbatim>\<open>add_variable\<close> tests the truth value of
  \<^verbatim>\<open>node_dict.get('current_value')\<close>, so a captured value that is present but falsy is
  replaced by the default of the type. The Byte variable 8 of the plant holds 0; its
  snapshot has \<^verbatim>\<open>current_value = 0\<close>, and the variable is created with the empty
  string.
\<close>

theorem add_variable_falsy_current_value:
  "browse_nodes enum_bool plant 10 8 False None =
     Inr (Snapshot ''ns=1;i=8'' ''1:Mode'' (ClsInt 2) (Some (TypeEnum Byte)) [''1:Mode'']
            (Some (PyInt 0)) (Some 8) (Some []))
   \<and> add_variable server ''ns=0;i=85''
       (Snapshot ''ns=1;i=8'' ''1:Mode'' (ClsInt 2) (Some (TypeEnum Byte)) [''1:Mode'']
            (Some (PyInt 0)) (Some (8::nat)) (Some []))
       ''c:ns=1;i=8'' [] =
     (Inr (Some ''c:ns=1;i=8''),
      [CreatedVariable ''ns=0;i=85'' ''c:ns=1;i=8'' ''1:Mode'' (PyStr []) (Some Byte)])"
  by code_simp

end
